theory Spec2Isabelle
  imports Complex_Main
begin

section \<open>Snow cover workflow of the data processing notebook\<close>

text \<open>
  The notebook \<^verbatim>\<open>31_data_processing.py\<close> chains data cube operators: band arithmetic
  (the NDSI), a threshold (the snow map), a cloud mask laid over the snow map, a polygon
  mask, and a spatial aggregation of three 0/1 cubes to pixel counts per time step. The
  pixel counts are then turned into a table, percentages are derived and cloudy time
  steps are filtered out.

  A cell of a cube holds a number or no data (null, NA): \<open>real option\<close>, with \<open>None\<close>
  for no data. Numbers are modelled as reals; rounding of the floating point arithmetic is
  not modelled. A comparison yields a cube of truth values, \<open>bool option\<close> per cell. A
  cube is indexed by the time step and the pixel.
\<close>

type_synonym pixel = "int \<times> int"

type_synonym cube = "string \<Rightarrow> pixel \<Rightarrow> real option"

type_synonym boolcube = "string \<Rightarrow> pixel \<Rightarrow> bool option"

text \<open>
  \<^verbatim>\<open>bands = ['B03', 'B11', 'SCL']\<close>: the loaded collection has exactly these three bands,
  and \<^verbatim>\<open>s2.band("B03")\<close> selects one of them.
\<close>

record datacube =
  B03 :: cube
  B11 :: cube
  SCL :: cube

subsection \<open>Cell-wise operators\<close>

text \<open>
  The overloaded operators of the client (subtraction, addition, division, greater-than,
  equality, or, multiplication) work cell by cell. No data in an operand gives no data in
  the result. Cubes hold no infinities here: a division by zero gives the undefined
  marker, which is the no-data value. This is what the code does for 0/0, the only
  division by zero of non-negative band values; for x/0 with x other than 0, which needs
  a negative band value, the code gives an infinity and the model does not follow it.
\<close>

definition cube_subtract :: "cube \<Rightarrow> cube \<Rightarrow> cube" where
  "cube_subtract a b = (\<lambda>t p. case (a t p, b t p) of
      (Some x, Some y) \<Rightarrow> Some (x - y) | _ \<Rightarrow> None)"

definition cube_add :: "cube \<Rightarrow> cube \<Rightarrow> cube" where
  "cube_add a b = (\<lambda>t p. case (a t p, b t p) of
      (Some x, Some y) \<Rightarrow> Some (x + y) | _ \<Rightarrow> None)"

definition cube_divide :: "cube \<Rightarrow> cube \<Rightarrow> cube" where
  "cube_divide a b = (\<lambda>t p. case (a t p, b t p) of
      (Some x, Some y) \<Rightarrow> (if y = 0 then None else Some (x / y)) | _ \<Rightarrow> None)"

text \<open>Comparison of a cube with a scalar: \<^verbatim>\<open>cube > k\<close> and \<^verbatim>\<open>cube == k\<close>.\<close>

definition cube_gt :: "cube \<Rightarrow> real \<Rightarrow> boolcube" where
  "cube_gt a k = (\<lambda>t p. case a t p of Some x \<Rightarrow> Some (x > k) | None \<Rightarrow> None)"

definition cube_eq :: "cube \<Rightarrow> real \<Rightarrow> boolcube" where
  "cube_eq a k = (\<lambda>t p. case a t p of Some x \<Rightarrow> Some (x = k) | None \<Rightarrow> None)"

text \<open>
  \<^verbatim>\<open>|\<close> on truth values with no data: true wins over no data, false does not.
\<close>

fun or3 :: "bool option \<Rightarrow> bool option \<Rightarrow> bool option" where
  "or3 (Some True) _ = Some True"
| "or3 _ (Some True) = Some True"
| "or3 (Some False) (Some False) = Some False"
| "or3 _ _ = None"

definition cube_or :: "boolcube \<Rightarrow> boolcube \<Rightarrow> boolcube" where
  "cube_or a b = (\<lambda>t p. or3 (a t p) (b t p))"

text \<open>
  \<^verbatim>\<open>boolcube * 1.0\<close>: the truth value as a number (true is 1, false is 0) times the
  scalar.
\<close>

definition cube_multiply :: "boolcube \<Rightarrow> real \<Rightarrow> cube" where
  "cube_multiply a k = (\<lambda>t p. case a t p of
      Some b \<Rightarrow> Some ((if b then 1 else 0) * k) | None \<Rightarrow> None)"

text \<open>
  \<^verbatim>\<open>data.mask(mask, replacement=r)\<close>: a cell of \<open>data\<close> is replaced by \<open>r\<close> where the mask
  holds a number other than zero, whatever the cell held; elsewhere (mask zero or no
  data) it is kept. (\<open>mask\<close> is a constant of HOL, hence the name.)
\<close>

definition mask_data :: "cube \<Rightarrow> cube \<Rightarrow> real option \<Rightarrow> cube" where
  "mask_data data m replacement = (\<lambda>t p. case m t p of
      Some v \<Rightarrow> (if v \<noteq> 0 then replacement else data t p)
    | None \<Rightarrow> data t p)"

text \<open>
  \<^verbatim>\<open>data.mask_polygon(geometry)\<close>: the geometry is given by the pixels it covers; with the
  default replacement, cells outside of it are set to NA (``Values outside of the
  boundaries are set to NA'').
\<close>

definition mask_polygon :: "cube \<Rightarrow> (pixel \<Rightarrow> bool) \<Rightarrow> cube" where
  "mask_polygon data geometry = (\<lambda>t p. if geometry p then data t p else None)"

subsection \<open>The workflow\<close>

definition green :: "datacube \<Rightarrow> cube" where
  "green s2 = B03 s2"

definition swir :: "datacube \<Rightarrow> cube" where
  "swir s2 = B11 s2"

text \<open>\<^verbatim>\<open>ndsi = (green - swir) / (green + swir)\<close>\<close>

definition ndsi :: "datacube \<Rightarrow> cube" where
  "ndsi s2 = cube_divide (cube_subtract (green s2) (swir s2)) (cube_add (green s2) (swir s2))"

text \<open>
  \<^verbatim>\<open>snowmap = ( ndsi > 0.4 ) * 1.0\<close>. The threshold step is named \<open>classify\<close> so that it can
  be applied to any cube.
\<close>

definition classify :: "cube \<Rightarrow> cube" where
  "classify x = cube_multiply (cube_gt x 0.4) 1.0"

definition snowmap :: "datacube \<Rightarrow> cube" where
  "snowmap s2 = classify (ndsi s2)"

text \<open>
  \<^verbatim>\<open>scl_band = s2.band("SCL")\<close>,
  \<^verbatim>\<open>cloud_mask = ( (scl_band == 8) | (scl_band == 9) | (scl_band == 3) ) * 1.0\<close>
\<close>

definition scl_band :: "datacube \<Rightarrow> cube" where
  "scl_band s2 = SCL s2"

definition cloud_mask :: "datacube \<Rightarrow> cube" where
  "cloud_mask s2 =
     cube_multiply
       (cube_or (cube_or (cube_eq (scl_band s2) 8) (cube_eq (scl_band s2) 9))
                (cube_eq (scl_band s2) 3))
       1.0"

text \<open>
  \<^verbatim>\<open>snowmap_cloudfree = snowmap.mask(cloud_mask,replacement=2)\<close>:
  0 = no snow, 1 = snow, 2 = cloud.
\<close>

definition snowmap_cloudfree :: "datacube \<Rightarrow> cube" where
  "snowmap_cloudfree s2 = mask_data (snowmap s2) (cloud_mask s2) (Some 2)"

text \<open>\<^verbatim>\<open>snowmap_cloudfree_masked = snowmap_cloudfree.mask_polygon(catchment_outline['geometry'][0])\<close>\<close>

definition snowmap_cloudfree_masked :: "datacube \<Rightarrow> (pixel \<Rightarrow> bool) \<Rightarrow> cube" where
  "snowmap_cloudfree_masked s2 catchment_outline =
     mask_polygon (snowmap_cloudfree s2) catchment_outline"

subsection \<open>Pixel counts per time step\<close>

text \<open>
  A cube with a band dimension is the list of its labelled bands, in order.
  \<^verbatim>\<open>add_dimension(name="bands",type="bands",label=l)\<close> makes a one-band cube and
  \<^verbatim>\<open>merge_cubes\<close> of cubes with different band labels puts their bands one after the other.
\<close>

type_synonym bandcube = "(string \<times> cube) list"

definition add_dimension :: "cube \<Rightarrow> string \<Rightarrow> bandcube" where
  "add_dimension c label = [(label, c)]"

definition merge_cubes :: "bandcube \<Rightarrow> bandcube \<Rightarrow> bandcube" where
  "merge_cubes a b = a @ b"

text \<open>The values of the cells that hold data.\<close>

fun valid :: "real option list \<Rightarrow> real list" where
  "valid [] = []"
| "valid (None # vs) = valid vs"
| "valid (Some x # vs) = x # valid vs"

text \<open>
  The reducer \<^verbatim>\<open>'sum'\<close> adds up the cells that hold data. It runs on the remote back end,
  and the notebook does not say what the back end reports for cells none of which holds
  data: no data (null) or the empty sum 0. The flag \<open>nodata_if_empty\<close> covers both.
\<close>

definition sum_reducer :: "bool \<Rightarrow> real option list \<Rightarrow> real option" where
  "sum_reducer nodata_if_empty vs =
     (if valid vs = [] \<and> nodata_if_empty then None else Some (sum_list (valid vs)))"

text \<open>
  \<^verbatim>\<open>cube.aggregate_spatial(geometries = g, reducer = 'sum')\<close> for one geometry: per time
  step a list with one entry for the geometry, which lists one value per band, the
  reducer applied to the cells of the band within the geometry. \<open>extent\<close> lists the pixels
  of the cube's spatial extent. The result has the shape of the exported JSON, where
  \<^verbatim>\<open>n_pixels_json[k][0][0]\<close> is the first band's value at time step \<open>k\<close>.
\<close>

definition aggregate_spatial ::
    "bool \<Rightarrow> pixel list \<Rightarrow> bandcube \<Rightarrow> (pixel \<Rightarrow> bool) \<Rightarrow> string \<Rightarrow> real option list list" where
  "aggregate_spatial nodata_if_empty extent c geometries t =
     [map (\<lambda>(label, b). sum_reducer nodata_if_empty (map (b t) (filter geometries extent))) c]"

text \<open>
  \<^verbatim>\<open>n_catchment = ((snowmap_cloudfree > -1) * 1.0).add_dimension(..., label="n_catchment")\<close>,
  \<^verbatim>\<open>n_cloud = cloud_mask.add_dimension(..., label="n_cloud")\<close>,
  \<^verbatim>\<open>n_snow = ((snowmap_cloudfree == 1) * 1.0).add_dimension(..., label="n_snow")\<close>,
  \<^verbatim>\<open>n_catchment_cloud_snow = n_catchment.merge_cubes(n_cloud).merge_cubes(n_snow)\<close>,
  \<^verbatim>\<open>n_pixels = n_catchment_cloud_snow.aggregate_spatial(geometries = ..., reducer = 'sum')\<close>
\<close>

definition n_catchment :: "datacube \<Rightarrow> bandcube" where
  "n_catchment s2 =
     add_dimension (cube_multiply (cube_gt (snowmap_cloudfree s2) (- 1)) 1.0) ''n_catchment''"

definition n_cloud :: "datacube \<Rightarrow> bandcube" where
  "n_cloud s2 = add_dimension (cloud_mask s2) ''n_cloud''"

definition n_snow :: "datacube \<Rightarrow> bandcube" where
  "n_snow s2 =
     add_dimension (cube_multiply (cube_eq (snowmap_cloudfree s2) 1) 1.0) ''n_snow''"

definition n_catchment_cloud_snow :: "datacube \<Rightarrow> bandcube" where
  "n_catchment_cloud_snow s2 = merge_cubes (merge_cubes (n_catchment s2) (n_cloud s2)) (n_snow s2)"

definition n_pixels ::
    "bool \<Rightarrow> pixel list \<Rightarrow> datacube \<Rightarrow> (pixel \<Rightarrow> bool) \<Rightarrow> string \<Rightarrow> real option list list" where
  "n_pixels nodata_if_empty extent s2 catchment_outline =
     aggregate_spatial nodata_if_empty extent (n_catchment_cloud_snow s2) catchment_outline"

text \<open>
  An aggregated value read as a number of pixels: no data stands for no pixel counted.
  \<open>class_count\<close> is the number of cells of the composited snow map within the geometry
  that hold a given value; the notebook does not compute the no-snow count, which is
  \<open>class_count\<close> at 0.
\<close>

definition pixel_count :: "real option \<Rightarrow> real" where
  "pixel_count v = (case v of Some x \<Rightarrow> x | None \<Rightarrow> 0)"

definition class_count ::
    "pixel list \<Rightarrow> datacube \<Rightarrow> (pixel \<Rightarrow> bool) \<Rightarrow> string \<Rightarrow> real \<Rightarrow> nat" where
  "class_count extent s2 catchment_outline t k =
     length (filter (\<lambda>p. snowmap_cloudfree s2 t p = Some k) (filter catchment_outline extent))"

subsection \<open>The time series table\<close>

text \<open>
  The table \<^verbatim>\<open>df\<close> has one row per time step. Its columns hold floating point numbers:
  a real number, an infinity or NaN (a null of the JSON becomes NaN in a column that
  also holds a number). A column of nulls only is not a column of floating point numbers,
  and the division of such columns raises \<^verbatim>\<open>TypeError\<close>; tables with such a column are
  outside the type \<open>counts\<close>. Rounding and the sign of zero are not modelled.
\<close>

datatype float64 = Num real | PInf | NInf | NaN

text \<open>Array division and multiplication, element by element, without raising.\<close>

fun np_divide :: "float64 \<Rightarrow> float64 \<Rightarrow> float64" where
  "np_divide NaN _ = NaN"
| "np_divide _ NaN = NaN"
| "np_divide (Num x) (Num y) =
     (if y = 0 then (if x = 0 then NaN else if x > 0 then PInf else NInf) else Num (x / y))"
| "np_divide (Num x) _ = Num 0"
| "np_divide PInf (Num y) = (if y < 0 then NInf else PInf)"
| "np_divide NInf (Num y) = (if y < 0 then PInf else NInf)"
| "np_divide _ _ = NaN"

fun np_multiply :: "float64 \<Rightarrow> float64 \<Rightarrow> float64" where
  "np_multiply NaN _ = NaN"
| "np_multiply _ NaN = NaN"
| "np_multiply (Num x) (Num y) = Num (x * y)"
| "np_multiply (Num x) PInf = (if x = 0 then NaN else if x > 0 then PInf else NInf)"
| "np_multiply (Num x) NInf = (if x = 0 then NaN else if x > 0 then NInf else PInf)"
| "np_multiply PInf (Num y) = (if y = 0 then NaN else if y > 0 then PInf else NInf)"
| "np_multiply NInf (Num y) = (if y = 0 then NaN else if y > 0 then NInf else PInf)"
| "np_multiply PInf PInf = PInf"
| "np_multiply NInf NInf = PInf"
| "np_multiply _ _ = NInf"

text \<open>\<^verbatim>\<open>x < k\<close> for a number \<open>k\<close>: every comparison with NaN is false.\<close>

fun float_lt :: "float64 \<Rightarrow> real \<Rightarrow> bool" where
  "float_lt (Num x) k = (x < k)"
| "float_lt NInf k = True"
| "float_lt PInf k = False"
| "float_lt NaN k = False"

text \<open>
  The table after \<^verbatim>\<open>df = pd.DataFrame(data=data).set_index("time")\<close>, and the table with
  the two derived columns.
\<close>

record counts =
  time :: string
  n_catchment_vals :: float64
  n_cloud_vals :: float64
  n_snow_vals :: float64

record percentages = counts +
  perc_cloud :: float64
  perc_snow :: float64

text \<open>
  \<^verbatim>\<open>perc_cloud = df["n_cloud_vals"].values / df["n_catchment_vals"].values * 100\<close>,
  \<^verbatim>\<open>df["perc_cloud"] = perc_cloud\<close>, and the same for \<^verbatim>\<open>perc_snow\<close> with
  \<^verbatim>\<open>n_snow_vals\<close>: the new columns are computed row by row.
\<close>

definition add_percentages :: "counts \<Rightarrow> percentages" where
  "add_percentages r =
     \<lparr>time = time r, n_catchment_vals = n_catchment_vals r, n_cloud_vals = n_cloud_vals r,
      n_snow_vals = n_snow_vals r,
      perc_cloud = np_multiply (np_divide (n_cloud_vals r) (n_catchment_vals r)) (Num 100),
      perc_snow = np_multiply (np_divide (n_snow_vals r) (n_catchment_vals r)) (Num 100)\<rparr>"

definition df_percentages :: "counts list \<Rightarrow> percentages list" where
  "df_percentages df = map add_percentages df"

text \<open>
  \<^verbatim>\<open>column < k\<close> gives one truth value per row, and \<^verbatim>\<open>df.loc[m]\<close> with such a list \<open>m\<close>
  selects the rows where it is true.
\<close>

definition series_lt :: "float64 list \<Rightarrow> real \<Rightarrow> bool list" where
  "series_lt col k = map (\<lambda>x. float_lt x k) col"

definition loc :: "'a list \<Rightarrow> bool list \<Rightarrow> 'a list" where
  "loc df m = map fst (filter snd (zip df m))"

text \<open>\<^verbatim>\<open>df_filtered = df.loc[df["perc_cloud"]<25]\<close>\<close>

definition df_filtered :: "percentages list \<Rightarrow> percentages list" where
  "df_filtered df = loc df (series_lt (map perc_cloud df) 25)"

section \<open>Validation against the snow stations\<close>


text \<open>
  \<^verbatim>\<open>snow_time_series\<close> is the exported JSON: per time stamp, in the order of the file, one
  list per station geometry. \<^verbatim>\<open>dates = [k.split("T")[0] for k in snow_time_series]\<close>:
  the part of each key before its first \<open>T\<close>.
\<close>

type_synonym timeseries = "(string \<times> real option list list) list"





text \<open>
  The five stations of the notebook, with the name each is queried by and its position
  in the lists of the time series (\<^verbatim>\<open>snow_val_smartino\<close> reads position 0,
  \<^verbatim>\<open>snow_val_rifiano\<close> position 1, and so on).
\<close>

datatype station = smartino | rifiano | plata | sleonardo | scena


fun station_index :: "station \<Rightarrow> nat" where
  "station_index smartino = 0"
| "station_index rifiano = 1"
| "station_index plata = 2"
| "station_index sleonardo = 3"
| "station_index scena = 4"

text \<open>Indexing a list raises \<^verbatim>\<open>IndexError\<close> out of range.\<close>

datatype error = IndexError

definition index_list :: "'a list \<Rightarrow> nat \<Rightarrow> error + 'a" where
  "index_list xs i = (if i < length xs then Inr (xs ! i) else Inl IndexError)"

text \<open>
  \<^verbatim>\<open>[snow_time_series[k][i][0] for k in snow_time_series]\<close>: the value of station \<open>i\<close> at
  every time step of the series, in the order of the series, without the dates.
\<close>

fun snow_val :: "nat \<Rightarrow> timeseries \<Rightarrow> error + real option list" where
  "snow_val i [] = Inr []"
| "snow_val i ((k, v) # rest) =
     (case index_list v i of
        Inl e \<Rightarrow> Inl e
      | Inr b \<Rightarrow>
          (case index_list b 0 of
             Inl e \<Rightarrow> Inl e
           | Inr x \<Rightarrow> (case snow_val i rest of Inl e \<Rightarrow> Inl e | Inr xs \<Rightarrow> Inr (x # xs))))"

text \<open>
  The five lists \<^verbatim>\<open>snow_val_smartino\<close>, ..., \<^verbatim>\<open>snow_val_scena\<close> are built in one cell,
  before any station is looked at: if one of them raises, nothing after it runs.
\<close>

definition snow_vals :: "timeseries \<Rightarrow> error + (station \<Rightarrow> real option list)" where
  "snow_vals snow_time_series =
     (case (snow_val 0 snow_time_series, snow_val 1 snow_time_series,
            snow_val 2 snow_time_series, snow_val 3 snow_time_series,
            snow_val 4 snow_time_series) of
        (Inr a, Inr b, Inr c, Inr d, Inr e) \<Rightarrow>
          Inr (\<lambda>st. case st of smartino \<Rightarrow> a | rifiano \<Rightarrow> b | plata \<Rightarrow> c
                 | sleonardo \<Rightarrow> d | scena \<Rightarrow> e)
      | _ \<Rightarrow> Inl IndexError)"



text \<open>
  Modelled from the spec: the cells of the confusion matrix that \<^verbatim>\<open>validation_metrics\<close>
  returns; the function is defined in \<^verbatim>\<open>_32_cubes_utilities\<close>, which is not among the
  sources. The spec (Validation Comparator) asks for a 2 x 2 matrix, true/false by
  presence/absence; the names of the cells are those of its validation scenario.
\<close>

record confusion =
  true_snow :: nat
  false_snow :: nat
  true_no_snow :: nat
  false_no_snow :: nat

text \<open>
  Modelled from the spec: the confusion matrix of \<^verbatim>\<open>validation_metrics\<close> (not among the
  sources). The input is the list of pairs (ground truth, derived value) over the common
  time stamps, both binary; a ground-truth value may be missing (\<open>None\<close>), and a pair with
  a missing ground truth falls into no cell. In the spec's scenario, ground truth
  [1,1,0,0] against derived [1,0,0,0] gives true_snow = 1, false_snow = 0,
  true_no_snow = 2 and false_no_snow = 1.
\<close>

definition confusion_matrix :: "(bool option \<times> bool) list \<Rightarrow> confusion" where
  "confusion_matrix pairs =
     \<lparr>true_snow = length (filter (\<lambda>p. p = (Some True, True)) pairs),
      false_snow = length (filter (\<lambda>p. p = (Some False, True)) pairs),
      true_no_snow = length (filter (\<lambda>p. p = (Some False, False)) pairs),
      false_no_snow = length (filter (\<lambda>p. p = (Some True, False)) pairs)\<rparr>"

text \<open>
  Modelled from the spec: \<^verbatim>\<open>validation_metrics\<close> of \<^verbatim>\<open>_32_cubes_utilities\<close>, which is
  not among the sources; the notebook reads the matrix as the second component of its
  result. The spec: accuracy = correct / total, and ``undefined'' must be reported when
  the ground truth is missing at all common time stamps. \<open>total\<close> is the number of pairs
  in the matrix, and the accuracy is \<open>None\<close> (undefined) when it is 0.
\<close>

definition validation_metrics :: "(bool option \<times> bool) list \<Rightarrow> real option \<times> confusion" where
  "validation_metrics pairs =
     (let m = confusion_matrix pairs;
          correct = true_snow m + true_no_snow m;
          total = correct + false_snow m + false_no_snow m
      in (if total = 0 then None else Some (real correct / real total), m))"

section \<open>Example inputs\<close>

text \<open>
  A scene where every cell is snow by its NDSI ((3 - 1) / (3 + 1) = 0.5) and cloud by its
  scene classification (8), and a scene whose NDSI is exactly 0.4 ((7 - 3) / (7 + 3)).
\<close>

definition example_s2 :: datacube where
  "example_s2 = \<lparr>B03 = (\<lambda>t p. Some 3), B11 = (\<lambda>t p. Some 1), SCL = (\<lambda>t p. Some 8)\<rparr>"

definition example_edge :: datacube where
  "example_edge = \<lparr>B03 = (\<lambda>t p. Some 7), B11 = (\<lambda>t p. Some 3), SCL = (\<lambda>t p. Some 4)\<rparr>"

definition example_outline :: "pixel \<Rightarrow> bool" where
  "example_outline p = (p \<in> set [(0, 0), (0, 1)])"

text \<open>
  A scene of five pixels at one time step: snow at (0, 0), no snow at (0, 1), cloud at
  (1, 0), no data at (1, 1), and snow at (2, 2), which lies outside the catchment.
\<close>

definition example_scene :: datacube where
  "example_scene =
     \<lparr>B03 = (\<lambda>t p. if p = (1, 1) then None else if p = (0, 1) then Some 2 else Some 8),
      B11 = (\<lambda>t p. if p = (0, 1) then Some 8 else Some 2),
      SCL = (\<lambda>t p. if p = (1, 0) then Some 9 else Some 4)\<rparr>"

definition example_extent :: "pixel list" where
  "example_extent = [(0, 0), (0, 1), (1, 0), (1, 1), (2, 2)]"

definition example_catchment :: "pixel \<Rightarrow> bool" where
  "example_catchment p = (p \<in> set [(0, 0), (0, 1), (1, 0), (1, 1)])"

text \<open>
  Ten time steps of a catchment of 100 pixels; the cloud counts of three of them (30, 50
  and 26) are above 25 percent.
\<close>

definition example_counts :: "real \<Rightarrow> counts" where
  "example_counts c =
     \<lparr>time = ''2018-02-10'', n_catchment_vals = Num 100, n_cloud_vals = Num c, n_snow_vals = Num 30\<rparr>"

definition example_df :: "percentages list" where
  "example_df = df_percentages (map example_counts [10, 30, 0, 24, 50, 5, 26, 12, 20, 1])"




section \<open>Properties of the raster pipeline\<close>

text \<open>What a cell of the NDSI, of the snow map and of the cloud mask holds.\<close>

lemma ndsi_cell:
  "ndsi s2 t p =
     (case (B03 s2 t p, B11 s2 t p) of
        (Some g, Some s) \<Rightarrow> (if g + s = 0 then None else Some ((g - s) / (g + s)))
      | _ \<Rightarrow> None)"
  by (simp add: ndsi_def cube_divide_def cube_subtract_def cube_add_def green_def swir_def
      split: option.split)

lemma classify_cell:
  "classify x t p = (case x t p of Some v \<Rightarrow> Some (if v > 0.4 then 1 else 0) | None \<Rightarrow> None)"
  by (simp add: classify_def cube_multiply_def cube_gt_def split: option.split)

lemma cloud_mask_cell:
  "cloud_mask s2 t p =
     (case SCL s2 t p of
        Some v \<Rightarrow> Some (if v = 8 \<or> v = 9 \<or> v = 3 then 1 else 0)
      | None \<Rightarrow> None)"
  by (simp add: cloud_mask_def cube_multiply_def cube_or_def cube_eq_def scl_band_def
      split: option.split)

text \<open>
  C4. For band values \<open>green\<close> and \<open>swir\<close> that are both non-negative and whose sum is not
  zero, the NDSI of the cell is the number (green - swir) / (green + swir), and it lies
  between -1 and 1.
\<close>

theorem ndsi_within_unit_interval:
  assumes "green s2 t p = Some g" and "swir s2 t p = Some s"
    and "0 \<le> g" and "0 \<le> s" and "g + s \<noteq> 0"
  shows "ndsi s2 t p = Some ((g - s) / (g + s)) \<and>
         - 1 \<le> (g - s) / (g + s) \<and> (g - s) / (g + s) \<le> 1"
proof -
  from assms have pos: "0 < g + s" by linarith
  have v: "ndsi s2 t p = Some ((g - s) / (g + s))"
    using assms by (simp add: ndsi_cell green_def swir_def)
  have lo: "- 1 \<le> (g - s) / (g + s)"
    using pos assms(3) by (simp add: pos_le_divide_eq)
  have hi: "(g - s) / (g + s) \<le> 1"
    using pos assms(4) by (simp add: pos_divide_le_eq)
  from v lo hi show ?thesis by simp
qed

theorem ndsi_within_unit_interval_witness:
  "ndsi example_s2 ''2018-02-10'' (0, 0) = Some (1 / 2) \<and> - 1 \<le> (1 / 2 :: real) \<and> (1 / 2 :: real) \<le> 1"
  using ndsi_within_unit_interval [of example_s2 "''2018-02-10''" "(0, 0)" 3 1]
  by (simp add: example_s2_def green_def swir_def)

text \<open>
  C9. The threshold classification is idempotent: classifying a classified cube again,
  with the same cutoff 0.4, changes no cell.
\<close>

theorem classify_idempotent:
  "classify (classify x) = classify x"
proof (rule ext, rule ext)
  fix t p
  show "classify (classify x) t p = classify x t p"
    by (cases "x t p") (simp_all add: classify_cell)
qed

text \<open>
  C10. The cutoff is exclusive: a cell with an NDSI value is snow (1) when the value is
  strictly greater than 0.4 and no snow (0) otherwise; at exactly 0.4 it is no snow.
\<close>

theorem threshold_exclusive:
  assumes "ndsi s2 t p = Some v"
  shows "snowmap s2 t p = Some (if v > 0.4 then 1 else 0) \<and>
         (v = 0.4 \<longrightarrow> snowmap s2 t p = Some 0)"
  using assms by (simp add: snowmap_def classify_cell)

theorem threshold_exclusive_witness:
  "ndsi example_edge ''2018-02-10'' (0, 0) = Some 0.4 \<and>
   snowmap example_edge ''2018-02-10'' (0, 0) = Some 0"
proof -
  have v: "ndsi example_edge ''2018-02-10'' (0, 0) = Some 0.4"
    by (simp add: ndsi_cell example_edge_def)
  from threshold_exclusive [OF v] v show ?thesis by simp
qed

text \<open>
  C2. Where the scene classification is 3, 8 or 9 the cloud mask is set, and the
  composited snow map holds 2 there, whatever the snow map held: nothing is assumed about
  the green and infrared bands.
\<close>

theorem cloud_mask_takes_precedence:
  assumes "scl_band s2 t p = Some v" and "v = 3 \<or> v = 8 \<or> v = 9"
  shows "cloud_mask s2 t p = Some 1 \<and> snowmap_cloudfree s2 t p = Some 2"
proof -
  from assms have m: "cloud_mask s2 t p = Some 1"
    by (auto simp add: cloud_mask_cell scl_band_def)
  then show ?thesis
    by (simp add: snowmap_cloudfree_def mask_data_def)
qed

theorem cloud_mask_takes_precedence_witness:
  "snowmap example_s2 ''2018-02-10'' (0, 0) = Some 1 \<and>
   cloud_mask example_s2 ''2018-02-10'' (0, 0) = Some 1 \<and>
   snowmap_cloudfree example_s2 ''2018-02-10'' (0, 0) = Some 2"
proof -
  have s: "scl_band example_s2 ''2018-02-10'' (0, 0) = Some 8"
    by (simp add: scl_band_def example_s2_def)
  have c: "snowmap example_s2 ''2018-02-10'' (0, 0) = Some 1"
    by (simp add: snowmap_def classify_cell ndsi_cell example_s2_def)
  from cloud_mask_takes_precedence [OF s] c show ?thesis by simp
qed

text \<open>
  C8. A cell outside the catchment geometry holds no data after the polygon mask, which
  is not the cloud class 2.
\<close>

theorem outside_geometry_is_no_data:
  assumes "\<not> catchment_outline p"
  shows "snowmap_cloudfree_masked s2 catchment_outline t p = None \<and>
         snowmap_cloudfree_masked s2 catchment_outline t p \<noteq> Some 2"
  using assms by (simp add: snowmap_cloudfree_masked_def mask_polygon_def)

theorem outside_geometry_is_no_data_witness:
  "snowmap_cloudfree example_s2 ''2018-02-10'' (1, 1) = Some 2 \<and>
   snowmap_cloudfree_masked example_s2 example_outline ''2018-02-10'' (1, 1) = None \<and>
   snowmap_cloudfree_masked example_s2 example_outline ''2018-02-10'' (0, 1) = Some 2"
proof -
  have o: "\<not> example_outline (1, 1)"
    by (simp add: example_outline_def)
  have i: "snowmap_cloudfree_masked example_s2 example_outline ''2018-02-10'' (0, 1) = Some 2"
    by (simp add: snowmap_cloudfree_masked_def mask_polygon_def example_outline_def
        snowmap_cloudfree_def mask_data_def cloud_mask_cell example_s2_def)
  have c: "snowmap_cloudfree example_s2 ''2018-02-10'' (1, 1) = Some 2"
    by (simp add: snowmap_cloudfree_def mask_data_def cloud_mask_cell example_s2_def)
  from outside_geometry_is_no_data [of example_outline "(1, 1)" example_s2 "''2018-02-10''"] o i c
  show ?thesis by simp
qed

subsection \<open>Aggregated pixel counts\<close>

lemma snowmap_cell_range:
  "snowmap s2 t p = None \<or> snowmap s2 t p = Some 0 \<or> snowmap s2 t p = Some 1"
  by (simp add: snowmap_def classify_cell split: option.split)

lemma cloud_mask_cell_range:
  "cloud_mask s2 t p = None \<or> cloud_mask s2 t p = Some 0 \<or> cloud_mask s2 t p = Some 1"
  by (simp add: cloud_mask_cell split: option.split)

lemma snowmap_cloudfree_cell:
  "snowmap_cloudfree s2 t p =
     (if cloud_mask s2 t p = Some 1 then Some 2 else snowmap s2 t p)"
  using cloud_mask_cell_range [of s2 t p]
  by (auto simp add: snowmap_cloudfree_def mask_data_def)

lemma snowmap_cloudfree_range:
  "snowmap_cloudfree s2 t p = None \<or> snowmap_cloudfree s2 t p = Some 0 \<or>
   snowmap_cloudfree s2 t p = Some 1 \<or> snowmap_cloudfree s2 t p = Some 2"
  using snowmap_cell_range [of s2 t p] by (auto simp add: snowmap_cloudfree_cell)

lemma cloud_mask_iff_class2:
  "cloud_mask s2 t p = Some 1 \<longleftrightarrow> snowmap_cloudfree s2 t p = Some 2"
  using snowmap_cell_range [of s2 t p] by (auto simp add: snowmap_cloudfree_cell)

lemma sum_valid_indicator:
  assumes "\<And>p. f p = None \<or> f p = Some 0 \<or> f p = Some 1"
  shows "sum_list (valid (map f ps)) = real (length (filter (\<lambda>p. f p = Some 1) ps))"
proof (induction ps)
  case Nil
  show ?case by simp
next
  case (Cons q qs)
  from assms [of q] Cons show ?case by auto
qed

lemma pixel_count_sum_reducer:
  "pixel_count (sum_reducer nd vs) = sum_list (valid vs)"
  by (simp add: pixel_count_def sum_reducer_def)

lemma length_filter_classes:
  assumes "\<And>p. g p = None \<or> g p = Some 0 \<or> g p = Some 1 \<or> g p = Some (2::real)"
  shows "length (filter (\<lambda>p. g p \<noteq> None) ps) =
         length (filter (\<lambda>p. g p = Some 1) ps) + length (filter (\<lambda>p. g p = Some 2) ps) +
         length (filter (\<lambda>p. g p = Some 0) ps)"
proof (induction ps)
  case Nil
  show ?case by simp
next
  case (Cons q qs)
  from assms [of q] Cons show ?case by auto
qed

lemma n_catchment_cell:
  "cube_multiply (cube_gt (snowmap_cloudfree s2) (- 1)) 1 t p =
     (if snowmap_cloudfree s2 t p = None then None else Some 1)"
  using snowmap_cloudfree_range [of s2 t p]
  by (auto simp add: cube_multiply_def cube_gt_def)

lemma n_snow_cell:
  "cube_multiply (cube_eq (snowmap_cloudfree s2) 1) 1 t p =
     (case snowmap_cloudfree s2 t p of None \<Rightarrow> None | Some v \<Rightarrow> Some (if v = 1 then 1 else 0))"
  by (simp add: cube_multiply_def cube_eq_def split: option.split)

lemma n_pixels_shape:
  "n_pixels nd extent s2 geom t =
    [[sum_reducer nd (map (cube_multiply (cube_gt (snowmap_cloudfree s2) (- 1)) 1 t) (filter geom extent)),
      sum_reducer nd (map (cloud_mask s2 t) (filter geom extent)),
      sum_reducer nd (map (cube_multiply (cube_eq (snowmap_cloudfree s2) 1) 1 t) (filter geom extent))]]"
  by (simp add: n_pixels_def aggregate_spatial_def n_catchment_cloud_snow_def merge_cubes_def
      n_catchment_def n_cloud_def n_snow_def add_dimension_def)

lemma total_count:
  "pixel_count (sum_reducer nd (map (cube_multiply (cube_gt (snowmap_cloudfree s2) (- 1)) 1 t) ps)) =
   real (length (filter (\<lambda>p. snowmap_cloudfree s2 t p \<noteq> None) ps))"
proof -
  let ?f = "cube_multiply (cube_gt (snowmap_cloudfree s2) (- 1)) 1 t"
  have r: "\<And>p. ?f p = None \<or> ?f p = Some 0 \<or> ?f p = Some 1"
    by (simp add: n_catchment_cell)
  have e: "\<And>p. (?f p = Some 1) = (snowmap_cloudfree s2 t p \<noteq> None)"
    by (simp add: n_catchment_cell)
  show ?thesis
    unfolding pixel_count_sum_reducer sum_valid_indicator [of ?f, OF r] e ..
qed

lemma snow_count:
  "pixel_count (sum_reducer nd (map (cube_multiply (cube_eq (snowmap_cloudfree s2) 1) 1 t) ps)) =
   real (length (filter (\<lambda>p. snowmap_cloudfree s2 t p = Some 1) ps))"
proof -
  let ?f = "cube_multiply (cube_eq (snowmap_cloudfree s2) 1) 1 t"
  have r: "\<And>p. ?f p = None \<or> ?f p = Some 0 \<or> ?f p = Some 1"
    by (simp add: n_snow_cell split: option.split)
  have e: "\<And>p. (?f p = Some 1) = (snowmap_cloudfree s2 t p = Some 1)"
    by (simp add: n_snow_cell split: option.split)
  show ?thesis
    unfolding pixel_count_sum_reducer sum_valid_indicator [of ?f, OF r] e ..
qed

lemma cloud_count:
  "pixel_count (sum_reducer nd (map (cloud_mask s2 t) ps)) =
   real (length (filter (\<lambda>p. snowmap_cloudfree s2 t p = Some 2) ps))"
  unfolding pixel_count_sum_reducer
    sum_valid_indicator [of "cloud_mask s2 t", OF cloud_mask_cell_range] cloud_mask_iff_class2 ..

text \<open>
  C1 (closed partition). For every time step and the catchment geometry, the three
  aggregated values are the total, cloud and snow counts, in this order, and
  total = snow + cloud + no-snow, where the total counts the cells of the composited snow
  map with a value greater than -1 (the cells that hold a class), snow the cells equal to
  1, cloud the cells equal to 2 and no-snow the cells equal to 0, all within the geometry
  only. A value reported as no data is read as no pixel counted.
\<close>

theorem n_pixels_closed_partition:
  "\<exists>total cloud snow.
     n_pixels nodata_if_empty extent s2 catchment_outline t = [[total, cloud, snow]] \<and>
     pixel_count total =
       pixel_count snow + pixel_count cloud + real (class_count extent s2 catchment_outline t 0) \<and>
     pixel_count snow = real (class_count extent s2 catchment_outline t 1) \<and>
     pixel_count cloud = real (class_count extent s2 catchment_outline t 2)"
proof -
  let ?ps = "filter catchment_outline extent"
  have "length (filter (\<lambda>p. snowmap_cloudfree s2 t p \<noteq> None) ?ps) =
        class_count extent s2 catchment_outline t 1 + class_count extent s2 catchment_outline t 2 +
        class_count extent s2 catchment_outline t 0"
    unfolding class_count_def
    by (rule length_filter_classes) (rule snowmap_cloudfree_range)
  then show ?thesis
    by (simp add: n_pixels_shape total_count snow_count cloud_count class_count_def)
qed

lemma example_cells:
  "snowmap_cloudfree example_scene t (0, 0) = Some 1"
  "snowmap_cloudfree example_scene t (0, 1) = Some 0"
  "snowmap_cloudfree example_scene t (1, 0) = Some 2"
  "snowmap_cloudfree example_scene t (1, 1) = None"
  "snowmap_cloudfree example_scene t (2, 2) = Some 1"
  by (simp_all add: snowmap_cloudfree_cell cloud_mask_cell snowmap_def classify_cell ndsi_cell
      example_scene_def)

lemma example_clouds:
  "cloud_mask example_scene t (0, 0) = Some 0"
  "cloud_mask example_scene t (0, 1) = Some 0"
  "cloud_mask example_scene t (1, 0) = Some 1"
  "cloud_mask example_scene t (1, 1) = Some 0"
  by (simp_all add: cloud_mask_cell example_scene_def)

theorem n_pixels_closed_partition_example:
  "n_pixels True example_extent example_scene example_catchment ''2018-02-10'' =
     [[Some 3, Some 1, Some 1]] \<and>
   class_count example_extent example_scene example_catchment ''2018-02-10'' 0 = 1"
proof -
  have c: "class_count example_extent example_scene example_catchment ''2018-02-10'' 0 = 1"
    by (simp add: class_count_def example_extent_def example_catchment_def example_cells)
  have n: "n_pixels True example_extent example_scene example_catchment ''2018-02-10'' =
     [[Some 3, Some 1, Some 1]]"
    by (simp add: n_pixels_shape example_extent_def example_catchment_def sum_reducer_def
        cube_multiply_def cube_gt_def cube_eq_def example_cells example_clouds)
  from n_pixels_closed_partition
    [of True example_extent example_scene example_catchment "''2018-02-10''"] n c
  show ?thesis by simp
qed

text \<open>
  The two conventions of the reducer for cells none of which holds data: no data, or the
  empty sum.
\<close>

lemma sum_reducer_no_valid_cells:
  "valid vs = [] \<Longrightarrow> sum_reducer True vs = None \<and> sum_reducer False vs = Some 0"
  by (simp add: sum_reducer_def)

section \<open>Properties of the time series table\<close>

lemma loc_map:
  "loc df (map P df) = filter P df"
proof -
  have "filter snd (zip df (map P df)) = zip (filter P df) (map P (filter P df))"
    by (induction df) simp_all
  then show ?thesis
    by (simp add: loc_def)
qed

lemma df_filtered_filter:
  "df_filtered df = filter (\<lambda>r. float_lt (perc_cloud r) 25) df"
proof -
  have "series_lt (map perc_cloud df) 25 = map (\<lambda>r. float_lt (perc_cloud r) 25) df"
    by (simp add: series_lt_def)
  then show ?thesis
    by (simp add: df_filtered_def loc_map)
qed

text \<open>
  C3. The filtered table consists of exactly the rows whose cloud percentage is below 25,
  each row as it was and in the original order; rows are kept or dropped as a whole. So
  of 10 time steps, 3 of which are not below the threshold, exactly 7 remain. (A row
  whose percentage is exactly 25 or undefined is not below the threshold.)
\<close>

theorem df_filtered_keeps_rows_below_threshold:
  "df_filtered df = filter (\<lambda>r. float_lt (perc_cloud r) 25) df \<and>
   (length df = 10 \<and> length (filter (\<lambda>r. \<not> float_lt (perc_cloud r) 25) df) = 3
      \<longrightarrow> length (df_filtered df) = 7)"
proof -
  have "length (filter (\<lambda>r. float_lt (perc_cloud r) 25) df) +
        length (filter (\<lambda>r. \<not> float_lt (perc_cloud r) 25) df) = length df"
    by (rule sum_length_filter_compl)
  then show ?thesis
    by (auto simp add: df_filtered_filter)
qed

lemma example_df_perc:
  "map perc_cloud example_df =
    [Num 10, Num 30, Num 0, Num 24, Num 50, Num 5, Num 26, Num 12, Num 20, Num 1]"
  by (simp add: example_df_def df_percentages_def add_percentages_def example_counts_def)

theorem df_filtered_keeps_rows_below_threshold_witness:
  "length example_df = 10 \<and>
   length (filter (\<lambda>r. \<not> float_lt (perc_cloud r) 25) example_df) = 3 \<and>
   length (df_filtered example_df) = 7 \<and>
   map perc_cloud (df_filtered example_df) = [Num 10, Num 0, Num 24, Num 5, Num 12, Num 20, Num 1]"
proof -
  have a: "length example_df = 10"
    by (simp add: example_df_def df_percentages_def)
  have b: "length (filter (\<lambda>r. \<not> float_lt (perc_cloud r) 25) example_df) = 3"
    by (simp add: example_df_def df_percentages_def add_percentages_def example_counts_def)
  have c: "map perc_cloud (filter (\<lambda>r. float_lt (perc_cloud r) 25) example_df) =
      [Num 10, Num 0, Num 24, Num 5, Num 12, Num 20, Num 1]"
    by (simp add: example_df_def df_percentages_def add_percentages_def example_counts_def)
  from df_filtered_keeps_rows_below_threshold [of example_df] a b
  have e: "df_filtered example_df = filter (\<lambda>r. float_lt (perc_cloud r) 25) example_df"
    and l: "length (df_filtered example_df) = 7"
    by blast+
  have m: "map perc_cloud (df_filtered example_df) =
      [Num 10, Num 0, Num 24, Num 5, Num 12, Num 20, Num 1]"
    unfolding e by (rule c)
  from a b l m show ?thesis
    by blast
qed

section \<open>Properties of the validation\<close>



text \<open>
  What the list comprehension over the time series returns: the value of the station at
  every time step when each time step lists the station with a value, and
  \<^verbatim>\<open>IndexError\<close> otherwise.
\<close>

lemma snow_val_char:
  "snow_val i series =
     (if list_all (\<lambda>kv. i < length (snd kv) \<and> snd kv ! i \<noteq> []) series
      then Inr (map (\<lambda>kv. hd (snd kv ! i)) series) else Inl IndexError)"
proof (induction series)
  case Nil
  show ?case by simp
next
  case (Cons kv rest)
  obtain k v where kv: "kv = (k, v)" by (cases kv)
  show ?case
  proof (cases "i < length v \<and> v ! i \<noteq> []")
    case True
    then have "index_list v i = Inr (v ! i)" and "index_list (v ! i) 0 = Inr (hd (v ! i))"
      by (simp_all add: index_list_def hd_conv_nth)
    with True Cons kv show ?thesis by simp
  next
    case False
    then have "index_list v i = Inl IndexError \<or>
        (index_list v i = Inr (v ! i) \<and> index_list (v ! i) 0 = Inl IndexError)"
      by (auto simp add: index_list_def)
    with False kv show ?thesis by auto
  qed
qed


lemma snow_vals_IndexError:
  assumes "\<not> list_all (\<lambda>kv. station_index st < length (snd kv) \<and>
      snd kv ! station_index st \<noteq> []) series"
  shows "snow_vals series = Inl IndexError"
proof -
  from assms have "snow_val (station_index st) series = Inl IndexError"
    by (simp add: snow_val_char)
  then show ?thesis
    by (cases st) (simp_all add: snow_vals_def split: sum.split)
qed





lemma confusion_all_missing:
  assumes "\<forall>p \<in> set pairs. fst p = None"
  shows "filter (\<lambda>p. p = (Some b, d)) pairs = []"
  using assms by (induction pairs) auto

text \<open>
  C6. If the ground truth is missing at every common time stamp, the accuracy is
  undefined (\<open>None\<close>): it is not 0, and the function returns a result.
\<close>

theorem all_missing_ground_truth_undefined:
  assumes "\<forall>p \<in> set pairs. fst p = None"
  shows "fst (validation_metrics pairs) = None \<and> fst (validation_metrics pairs) \<noteq> Some 0"
  using assms
  by (simp add: validation_metrics_def confusion_matrix_def Let_def confusion_all_missing)

theorem all_missing_ground_truth_undefined_witness:
  "fst (validation_metrics [(None, True), (None, False), (None, False)]) = None \<and>
   fst (validation_metrics [(Some True, True), (Some True, False), (Some False, False),
     (Some False, False)]) = Some (3 / 4)"
proof -
  have h: "\<forall>p \<in> set [(None :: bool option, True), (None, False), (None, False)]. fst p = None"
    by simp
  have e: "fst (validation_metrics [(Some True, True), (Some True, False), (Some False, False),
     (Some False, False)]) = Some (3 / 4)"
    by (simp add: validation_metrics_def confusion_matrix_def Let_def)
  from all_missing_ground_truth_undefined [OF h] e show ?thesis by simp
qed

end
